theory Spec2Isabelle
  imports Main "HOL-Library.Word"
begin

section \<open>urlreadseeker: an io.ReadSeeker over HTTP range requests\<close>

text \<open>
  A shallow embedding of \<^verbatim>\<open>urlreadseeker.go\<close>. The Go type \<^verbatim>\<open>int64\<close> is a
  64-bit word read in two's complement (\<open>sint\<close>, \<open><s\<close>, \<open>\<le>s\<close>), so that
  \<^verbatim>\<open>offset + int64(len(buf))\<close> wraps as it does in Go. The Go type \<^verbatim>\<open>int\<close> is
  \<open>int\<close>; a byte slice is a list of bytes, whose length Go keeps below \<open>2 ^ 63\<close>.
  A run-time panic is the outcome \<open>Panicked\<close>. The HTTP client is a parameter, and
  every request handed to it is appended to a log, so that "no network call" is the
  statement that the log did not grow.
\<close>

subsection \<open>Data\<close>

type_synonym byte = "8 word"
type_synonym int64 = "64 word"

text \<open>
  The error values of the package: \<^verbatim>\<open>io.EOF\<close>, the two \<^verbatim>\<open>fmt.Errorf\<close> errors of
  \<^verbatim>\<open>Seek\<close> and \<^verbatim>\<open>read\<close>, and the opaque errors handed on from \<^verbatim>\<open>net/http\<close>,
  \<^verbatim>\<open>ioutil\<close> and \<^verbatim>\<open>strconv\<close>.
\<close>

datatype error =
    EOF
  | ModeNotImplemented int
  | BadStatusCode int
  | LibError string

datatype 'a outcome = Panicked | Returned 'a

datatype http_method = MethodGet | MethodHead

text \<open>
  A request as the package builds it: method, URL and, for a ranged GET, the two
  numbers printed into the header \<^verbatim>\<open>Range: bytes=%d-%d\<close>.
\<close>

record request =
  req_method :: http_method
  req_url :: string
  req_range :: "(int64 \<times> int64) option"

text \<open>
  What the package looks at in a response: \<^verbatim>\<open>StatusCode\<close>, the value of
  \<^verbatim>\<open>Header.Get("Content-Length")\<close> (empty when the header is absent) and what
  \<^verbatim>\<open>ioutil.ReadAll(resp.Body)\<close> yields.
\<close>

record response =
  status_code :: int
  content_length :: string
  body :: "error + byte list"

text \<open>
  What the package takes from outside. The HTTP capability: \<open>new_request_err\<close> is
  the error of \<^verbatim>\<open>http.NewRequest\<close> for a URL (\<open>None\<close> when the URL is accepted),
  \<open>client_do\<close> is \<^verbatim>\<open>client.Do\<close>, which may answer differently depending on the
  requests made before. The Go runtime: \<open>make_ok n\<close> says whether
  \<^verbatim>\<open>make([]byte, n)\<close> yields a slice; above the allocation limit of the platform it
  panics (\<^verbatim>\<open>makeslice: len out of range\<close>), and without memory the process dies.
\<close>

record env =
  new_request_err :: "string \<Rightarrow> error option"
  client_do :: "request list \<Rightarrow> request \<Rightarrow> error + response"
  make_ok :: "nat \<Rightarrow> bool"

record Reader =
  url :: string
  offset :: int64
  contentSize :: int64
  head :: "byte list"

text \<open>The values a read hands back: \<open>n\<close>, \<open>err\<close>, the caller's buffer after the call,
  the reader after the call, and the request log after the call.\<close>

record read_result =
  res_n :: int
  res_err :: "error option"
  res_buf :: "byte list"
  res_reader :: Reader
  res_calls :: "request list"

subsection \<open>Go primitives\<close>

text \<open>\<^verbatim>\<open>int64(len(xs))\<close>.\<close>

definition len64 :: "'a list \<Rightarrow> int64" where
  "len64 xs = word_of_nat (length xs)"

text \<open>
  The slice expression \<^verbatim>\<open>xs[lo:hi]\<close> with \<^verbatim>\<open>int64\<close> indices panics unless
  \<open>0 \<le> lo \<le> hi \<le> cap(xs)\<close>. The only such expression of the package sits behind the
  test \<^verbatim>\<open>int64(len(r.head)) > end\<close>, so the bound on \<open>hi\<close> is checked against the
  length here.
\<close>

definition slice64 :: "'a list \<Rightarrow> int64 \<Rightarrow> int64 \<Rightarrow> 'a list option" where
  "slice64 xs lo hi =
     (if 0 \<le>s lo \<and> lo \<le>s hi \<and> sint hi \<le> int (length xs)
      then Some (take (nat (sint hi) - nat (sint lo)) (drop (nat (sint lo)) xs))
      else None)"

text \<open>\<^verbatim>\<open>xs[:hi]\<close> with an \<^verbatim>\<open>int\<close> index.\<close>

definition slice_to :: "'a list \<Rightarrow> int \<Rightarrow> 'a list option" where
  "slice_to xs hi =
     (if 0 \<le> hi \<and> hi \<le> int (length xs) then Some (take (nat hi) xs) else None)"

text \<open>\<^verbatim>\<open>copy(dst, src)\<close> overwrites the first \<open>min (len dst) (len src)\<close> bytes of
  \<open>dst\<close>; the value is \<open>dst\<close> after the call.\<close>

definition copy_bytes :: "'a list \<Rightarrow> 'a list \<Rightarrow> 'a list" where
  "copy_bytes dst src =
     (let k = min (length dst) (length src) in take k src @ drop k dst)"

text \<open>Go's integer division truncates towards zero.\<close>

definition go_quot :: "int \<Rightarrow> int \<Rightarrow> int" where
  "go_quot a b = (if (a < 0) = (b < 0) then \<bar>a\<bar> div \<bar>b\<bar> else - (\<bar>a\<bar> div \<bar>b\<bar>))"

text \<open>
  \<^verbatim>\<open>strconv.ParseUint(s, 10, 64)\<close> reads the digits from the left. A character
  that is no decimal digit is a syntax error where it stands; a value that leaves
  \<^verbatim>\<open>uint64\<close> is a range error at the digit that makes it so.
\<close>

definition digit_of :: "char \<Rightarrow> nat option" where
  "digit_of c =
     (let k = of_char c :: nat in if 48 \<le> k \<and> k \<le> 57 then Some (k - 48) else None)"

definition ErrSyntax :: error where
  "ErrSyntax = LibError ''strconv.ParseInt: invalid syntax''"

definition ErrRange :: error where
  "ErrRange = LibError ''strconv.ParseInt: value out of range''"

fun ParseUint_digits :: "nat \<Rightarrow> string \<Rightarrow> error + nat" where
  "ParseUint_digits n [] = Inr n"
| "ParseUint_digits n (c # cs) =
     (case digit_of c of
        None \<Rightarrow> Inl ErrSyntax
      | Some d \<Rightarrow>
          if (2 ^ 64 - 1) div 10 + 1 \<le> n then Inl ErrRange
          else if 2 ^ 64 - 1 < 10 * n + d then Inl ErrRange
          else ParseUint_digits (10 * n + d) cs)"

definition ParseUint :: "string \<Rightarrow> error + nat" where
  "ParseUint s = (if s = [] then Inl ErrSyntax else ParseUint_digits 0 s)"

text \<open>
  \<^verbatim>\<open>strconv.ParseInt(s, 10, 64)\<close>: an optional sign, the unsigned value of the rest,
  and a range error when the signed value does not fit \<^verbatim>\<open>int64\<close>.
\<close>

definition ParseInt :: "string \<Rightarrow> error + int64" where
  "ParseInt s =
     (if s = [] then Inl ErrSyntax
      else
        (let neg = (hd s = CHR ''-'');
             ds = (if hd s = CHR ''+'' \<or> hd s = CHR ''-'' then tl s else s)
         in case ParseUint ds of
              Inl e \<Rightarrow> Inl e
            | Inr un \<Rightarrow>
                if \<not> neg \<and> 2 ^ 63 \<le> un then Inl ErrRange
                else if neg \<and> 2 ^ 63 < un then Inl ErrRange
                else Inr (if neg then - word_of_nat un else word_of_nat un)))"

text \<open>The whence constants \<^verbatim>\<open>io.SeekStart\<close>, \<^verbatim>\<open>io.SeekCurrent\<close>, \<^verbatim>\<open>io.SeekEnd\<close>.\<close>

definition SeekStart :: int where "SeekStart = 0"
definition SeekCurrent :: int where "SeekCurrent = 1"
definition SeekEnd :: int where "SeekEnd = 2"

subsection \<open>The methods of Reader\<close>

text \<open>
  \<^verbatim>\<open>func (r *Reader) read(buf []byte, offset int64) (n int, err error)\<close>.
  No branch assigns to a field of \<open>r\<close>. The request is logged when \<^verbatim>\<open>client.Do\<close>
  is called, whatever it answers.
\<close>

definition read :: "env \<Rightarrow> Reader \<Rightarrow> request list \<Rightarrow> byte list \<Rightarrow> int64 \<Rightarrow> read_result outcome" where
  "read h r calls buf off =
     (let end = off + len64 buf in
      if end <s len64 (head r) then
        (case slice64 (head r) off end of
           None \<Rightarrow> Panicked
         | Some s \<Rightarrow>
             Returned \<lparr>res_n = int (length buf), res_err = None,
                       res_buf = copy_bytes buf s, res_reader = r, res_calls = calls\<rparr>)
      else if contentSize r \<le>s off then
        Returned \<lparr>res_n = 0, res_err = Some EOF, res_buf = buf, res_reader = r,
                  res_calls = calls\<rparr>
      else
        (case new_request_err h (url r) of
           Some e \<Rightarrow>
             Returned \<lparr>res_n = 0, res_err = Some e, res_buf = buf, res_reader = r,
                       res_calls = calls\<rparr>
         | None \<Rightarrow>
             (let req = \<lparr>req_method = MethodGet, req_url = url r,
                         req_range = Some (off, end - 1)\<rparr>;
                  calls' = calls @ [req]
              in case client_do h calls req of
                   Inl e \<Rightarrow>
                     Returned \<lparr>res_n = 0, res_err = Some e, res_buf = buf, res_reader = r,
                               res_calls = calls'\<rparr>
                 | Inr resp \<Rightarrow>
                     if go_quot (status_code resp) 100 \<noteq> 2 then
                       Returned \<lparr>res_n = 0, res_err = Some (BadStatusCode (status_code resp)),
                                 res_buf = buf, res_reader = r, res_calls = calls'\<rparr>
                     else
                       (case body resp of
                          Inl e \<Rightarrow>
                            Returned \<lparr>res_n = 0, res_err = Some e, res_buf = buf,
                                      res_reader = r, res_calls = calls'\<rparr>
                        | Inr bs \<Rightarrow>
                            if length buf = 0 then
                              Returned \<lparr>res_n = 0, res_err = Some EOF,
                                        res_buf = copy_bytes buf bs, res_reader = r,
                                        res_calls = calls'\<rparr>
                            else
                              Returned \<lparr>res_n = int (length buf), res_err = None,
                                        res_buf = copy_bytes buf bs, res_reader = r,
                                        res_calls = calls'\<rparr>))))"

text \<open>\<^verbatim>\<open>func (r *Reader) ReadAt(buf []byte, offset int64) (n int, err error)\<close>.\<close>

definition ReadAt :: "env \<Rightarrow> Reader \<Rightarrow> request list \<Rightarrow> byte list \<Rightarrow> int64 \<Rightarrow> read_result outcome" where
  "ReadAt h r calls buf off = read h r calls buf off"

text \<open>
  \<^verbatim>\<open>func (r *Reader) Read(buf []byte) (n int, err error)\<close>: the read at
  \<^verbatim>\<open>r.offset\<close>, then \<^verbatim>\<open>r.offset += int64(n)\<close>. A panic of the read leaves the
  method before the assignment.
\<close>

definition Read :: "env \<Rightarrow> Reader \<Rightarrow> request list \<Rightarrow> byte list \<Rightarrow> read_result outcome" where
  "Read h r calls buf =
     (case read h r calls buf (offset r) of
        Panicked \<Rightarrow> Panicked
      | Returned res \<Rightarrow>
          Returned (res\<lparr>res_reader :=
            (res_reader res)\<lparr>offset := offset (res_reader res) + word_of_int (res_n res)\<rparr>\<rparr>))"

text \<open>
  \<^verbatim>\<open>func (r *Reader) Seek(offset int64, whence int) (int64, error)\<close>. The method
  never touches the client; the request log is passed through to say so.
\<close>

definition Seek :: "Reader \<Rightarrow> request list \<Rightarrow> int64 \<Rightarrow> int \<Rightarrow> int64 \<times> error option \<times> Reader \<times> request list" where
  "Seek r calls off whence =
     (if whence = SeekStart then
        (let r' = r\<lparr>offset := off\<rparr> in (offset r', None, r', calls))
      else if whence = SeekCurrent then
        (let r' = r\<lparr>offset := offset r + off\<rparr> in (offset r', None, r', calls))
      else if whence = SeekEnd then
        (let r' = r\<lparr>offset := contentSize r - off\<rparr> in (offset r', None, r', calls))
      else (0, Some (ModeNotImplemented whence), r, calls))"

text \<open>\<^verbatim>\<open>func (r *Reader) size() (contentSize int64, err error)\<close>: a HEAD request whose
  status is not looked at, and the parse of its Content-Length.\<close>

definition size_of :: "env \<Rightarrow> Reader \<Rightarrow> request list \<Rightarrow> (error + int64) \<times> request list" where
  "size_of h r calls =
     (case new_request_err h (url r) of
        Some e \<Rightarrow> (Inl e, calls)
      | None \<Rightarrow>
          (let req = \<lparr>req_method = MethodHead, req_url = url r, req_range = None\<rparr>;
               calls' = calls @ [req]
           in case client_do h calls req of
                Inl e \<Rightarrow> (Inl e, calls')
              | Inr resp \<Rightarrow>
                  (case ParseInt (content_length resp) of
                     Inl e \<Rightarrow> (Inl e, calls')
                   | Inr sz \<Rightarrow> (Inr sz, calls'))))"

text \<open>
  \<^verbatim>\<open>func NewReader(url string, prefetch int) (*Reader, error)\<close>. The value is the
  pointer (\<open>None\<close> for \<^verbatim>\<open>nil\<close>), the error and the request log. The buffer of
  the prefetch read is \<^verbatim>\<open>make([]byte, prefetch)\<close>; where the runtime cannot make
  it, \<^verbatim>\<open>NewReader\<close> does not return. After the read the buffer holds what
  \<^verbatim>\<open>copy\<close> left in it. The message printed on a failed prefetch is not modelled.
\<close>

definition NewReader :: "env \<Rightarrow> request list \<Rightarrow> string \<Rightarrow> int \<Rightarrow> (Reader option \<times> error option \<times> request list) outcome" where
  "NewReader h calls u prefetch =
     (let r = \<lparr>url = u, offset = 0, contentSize = 0, head = []\<rparr> in
      case size_of h r calls of
        (Inl e, calls1) \<Rightarrow> Returned (None, Some e, calls1)
      | (Inr sz, calls1) \<Rightarrow>
          (let r = r\<lparr>contentSize := sz\<rparr> in
           if prefetch > 0 then
             (if \<not> make_ok h (nat prefetch) then Panicked
              else
                (case ReadAt h r calls1 (replicate (nat prefetch) 0) 0 of
                   Panicked \<Rightarrow> Panicked
                 | Returned res \<Rightarrow>
                     (let hd1 = (if res_err res \<noteq> None then [] else res_buf res) in
                      if int (length hd1) > res_n res then
                        (case slice_to hd1 (res_n res) of
                           None \<Rightarrow> Panicked
                         | Some hd2 \<Rightarrow>
                             Returned (Some (r\<lparr>head := hd2\<rparr>), None, res_calls res))
                      else Returned (Some (r\<lparr>head := hd1\<rparr>), None, res_calls res))))
           else Returned (Some r, None, calls1)))"

subsection \<open>A concrete server\<close>

text \<open>
  A server holding the two bytes \<open>0x41 0x42\<close> under every URL. It answers HEAD with
  Content-Length 2, and a ranged GET with status 206 and the bytes of the range that
  exist, or with 416 when the range starts outside the resource.
\<close>

definition demo_content :: "byte list" where
  "demo_content = [0x41, 0x42]"

definition demo_do :: "request list \<Rightarrow> request \<Rightarrow> error + response" where
  "demo_do calls req =
     (case req_range req of
        None \<Rightarrow> Inr \<lparr>status_code = 200, content_length = ''2'', body = Inr []\<rparr>
      | Some (lo, hi) \<Rightarrow>
          if 0 \<le>s lo \<and> sint lo < int (length demo_content) \<and> lo \<le>s hi then
            Inr \<lparr>status_code = 206, content_length = '''',
                 body = Inr (take (nat (sint hi) + 1 - nat (sint lo))
                               (drop (nat (sint lo)) demo_content))\<rparr>
          else Inr \<lparr>status_code = 416, content_length = '''', body = Inr []\<rparr>)"

text \<open>The allocation limit of the Go runtime on 64-bit Linux, \<open>2 ^ 48\<close> bytes.\<close>

definition demo_make :: "nat \<Rightarrow> bool" where
  "demo_make n = (n \<le> 281474976710656)"

definition demo_http :: env where
  "demo_http = \<lparr>new_request_err = (\<lambda>u. None), client_do = demo_do, make_ok = demo_make\<rparr>"

text \<open>A server that ignores the Range header and always answers 200 with the
  whole resource, as servers do for a range they cannot parse.\<close>

definition plain_do :: "request list \<Rightarrow> request \<Rightarrow> error + response" where
  "plain_do calls req =
     Inr \<lparr>status_code = 200, content_length = ''2'', body = Inr demo_content\<rparr>"

definition plain_http :: env where
  "plain_http = \<lparr>new_request_err = (\<lambda>u. None), client_do = plain_do, make_ok = demo_make\<rparr>"

text \<open>A client whose every request fails in the transport.\<close>

definition down_http :: env where
  "down_http = \<lparr>new_request_err = (\<lambda>u. None),
                 client_do = (\<lambda>calls req. Inl (LibError ''dial tcp: connection refused'')),
                 make_ok = demo_make\<rparr>"

text \<open>A reader for that resource with nothing prefetched, as \<^verbatim>\<open>NewReader\<close> with
  \<^verbatim>\<open>prefetch = 0\<close> makes it.\<close>

definition demo_reader :: Reader where
  "demo_reader = \<lparr>url = ''u'', offset = 0, contentSize = 2, head = []\<rparr>"

text \<open>A reader for that resource with both bytes prefetched, as \<^verbatim>\<open>NewReader\<close> with
  \<^verbatim>\<open>prefetch = 2\<close> makes it.\<close>

definition prefetched_reader :: Reader where
  "prefetched_reader = \<lparr>url = ''u'', offset = 0, contentSize = 2, head = [0x41, 0x42]\<rparr>"

text \<open>The reader that \<^verbatim>\<open>NewReader\<close> with \<^verbatim>\<open>prefetch = 4\<close> makes for that
  resource.\<close>

definition overlong_reader :: Reader where
  "overlong_reader = \<lparr>url = ''u'', offset = 0, contentSize = 2, head = [0x41, 0x42, 0, 0]\<rparr>"

text \<open>A server that answers HEAD like the first one and every GET with status 500.\<close>

definition head_only_do :: "request list \<Rightarrow> request \<Rightarrow> error + response" where
  "head_only_do calls req =
     (case req_range req of
        None \<Rightarrow> Inr \<lparr>status_code = 200, content_length = ''2'', body = Inr []\<rparr>
      | Some rg \<Rightarrow> Inr \<lparr>status_code = 500, content_length = '''', body = Inr []\<rparr>)"

definition head_only_http :: env where
  "head_only_http = \<lparr>new_request_err = (\<lambda>u. None), client_do = head_only_do,
                      make_ok = demo_make\<rparr>"

section \<open>Properties\<close>

subsection \<open>Arithmetic of int64 offsets\<close>

lemma sint_len64: "length xs < 2 ^ 63 \<Longrightarrow> sint (len64 xs) = int (length xs)"
  unfolding len64_def
  by (simp add: signed_of_nat signed_take_bit_int_eq_self)

lemma sint_add_nat:
  assumes "sint (a::int64) + int n < 2 ^ 63"
  shows "sint (a + word_of_nat n) = sint a + int n"
proof -
  have lo: "- (2 ^ 63) \<le> sint a + int n" using sint_ge [of a] by simp
  have "a + word_of_nat n = word_of_int (sint a + int n)"
    by simp
  then have "sint (a + word_of_nat n) = signed_take_bit 63 (sint a + int n)"
    by (simp only: sint_sbintrunc') simp
  then show ?thesis
    using lo assms by (simp add: signed_take_bit_int_eq_self)
qed

lemma sint_add_nat_wrap:
  assumes "2 ^ 63 \<le> sint (a::int64) + int n" "n < 2 ^ 63"
  shows "sint (a + word_of_nat n) = sint a + int n - 2 ^ 64"
proof -
  have hi: "sint a < 2 ^ 63" using sint_lt [of a] by simp
  have "a + word_of_nat n = word_of_int (sint a + int n - 2 ^ 64)"
    by simp
  then have "sint (a + word_of_nat n) = signed_take_bit 63 (sint a + int n - 2 ^ 64)"
    by (simp only: sint_sbintrunc') simp
  then show ?thesis
    using hi assms by (simp add: signed_take_bit_int_eq_self)
qed

lemma sint_end:
  "sint off + int (length buf) < 2 ^ 63 \<Longrightarrow> sint (off + len64 buf) = sint off + int (length buf)"
  unfolding len64_def by (rule sint_add_nat)

subsection \<open>The branches of read\<close>

lemma copy_bytes_same_length: "length s = length dst \<Longrightarrow> copy_bytes dst s = s"
  by (simp add: copy_bytes_def)

lemma slice64_covered:
  assumes "0 \<le> sint lo" "sint lo \<le> sint hi" "sint hi \<le> int (length xs)"
  shows "slice64 xs lo hi = Some (take (nat (sint hi - sint lo)) (drop (nat (sint lo)) xs))"
  using assms by (simp add: slice64_def word_sle_eq nat_diff_distrib)

lemma read_hit:
  assumes "length (head r) < 2 ^ 63" "0 \<le> sint off"
    and "sint off + int (length buf) < int (length (head r))"
  shows "read h r calls buf off =
           Returned \<lparr>res_n = int (length buf), res_err = None,
                     res_buf = take (length buf) (drop (nat (sint off)) (head r)),
                     res_reader = r, res_calls = calls\<rparr>"
proof -
  let ?end = "off + len64 buf"
  have e: "sint ?end = sint off + int (length buf)"
    using assms by (intro sint_end) simp
  have hl: "sint (len64 (head r)) = int (length (head r))"
    using assms(1) by (rule sint_len64)
  have hit: "?end <s len64 (head r)"
    using assms(3) by (simp add: word_sless_alt e hl)
  have sl: "slice64 (head r) off ?end = Some (take (length buf) (drop (nat (sint off)) (head r)))"
    using assms by (simp add: slice64_covered e)
  have len: "length (take (length buf) (drop (nat (sint off)) (head r))) = length buf"
    using assms by simp
  show ?thesis
    using hit sl by (simp add: read_def Let_def copy_bytes_same_length [OF len])
qed

lemma read_eof:
  assumes "length (head r) < 2 ^ 63" "sint off + int (length buf) < 2 ^ 63"
    and "int (length (head r)) \<le> sint off + int (length buf)"
    and "sint (contentSize r) \<le> sint off"
  shows "read h r calls buf off =
           Returned \<lparr>res_n = 0, res_err = Some EOF, res_buf = buf, res_reader = r,
                     res_calls = calls\<rparr>"
proof -
  let ?end = "off + len64 buf"
  have e: "sint ?end = sint off + int (length buf)"
    using assms(2) by (rule sint_end)
  have hl: "sint (len64 (head r)) = int (length (head r))"
    using assms(1) by (rule sint_len64)
  have nohit: "\<not> ?end <s len64 (head r)"
    using assms(3) by (simp add: word_sless_alt e hl)
  have past: "contentSize r \<le>s off"
    using assms(4) by (simp add: word_sle_eq)
  show ?thesis
    using nohit past by (simp add: read_def Let_def)
qed

lemma read_returned:
  assumes "read h r calls buf off = Returned res"
  shows "res_reader res = r \<and>
         ((res_n res = 0 \<and> res_err res \<noteq> None \<and> res_buf res = buf) \<or>
          (res_n res = int (length buf) \<and> res_err res = None))"
  using assms
  by (auto simp: read_def Let_def copy_bytes_def split: if_splits option.splits sum.splits)

lemma read_overflow_panics:
  assumes "length buf < 2 ^ 63" "length (head r) < 2 ^ 63"
    and "2 ^ 63 \<le> sint off + int (length buf)"
  shows "read h r calls buf off = Panicked"
proof -
  let ?end = "off + len64 buf"
  have e: "sint ?end = sint off + int (length buf) - 2 ^ 64"
    unfolding len64_def using assms(3,1) by (rule sint_add_nat_wrap)
  have offhi: "sint off < 2 ^ 63" using sint_lt [of off] by simp
  have neg: "sint ?end < 0" using e offhi assms(1) by simp
  have offpos: "0 < sint off" using assms(1,3) by simp
  have hl: "sint (len64 (head r)) = int (length (head r))"
    using assms(2) by (rule sint_len64)
  have hit: "?end <s len64 (head r)"
    using neg hl by (simp add: word_sless_alt)
  have sl: "slice64 (head r) off ?end = None"
    using neg offpos by (simp add: slice64_def word_sle_eq)
  show ?thesis
    using hit sl by (simp add: read_def Let_def)
qed

lemma read_returned_no_wrap:
  assumes "length buf < 2 ^ 63" "length (head r) < 2 ^ 63"
    and "read h r calls buf off = Returned res"
  shows "sint off + int (length buf) < 2 ^ 63"
proof (rule ccontr)
  assume "\<not> sint off + int (length buf) < 2 ^ 63"
  then have "2 ^ 63 \<le> sint off + int (length buf)" by simp
  then have "read h r calls buf off = Panicked"
    using assms(1,2) by (intro read_overflow_panics)
  with assms(3) show False by simp
qed

lemma copy_bytes_short: "length src \<le> length dst \<Longrightarrow> copy_bytes dst src = src @ drop (length src) dst"
  by (simp add: copy_bytes_def Let_def min_def)

lemma read_returned_length:
  assumes "read h r calls buf off = Returned res"
  shows "length (res_buf res) = length buf"
  using assms
  by (auto simp: read_def Let_def copy_bytes_def split: if_splits option.splits sum.splits)

lemma read_cursor_independent:
  "read h (r\<lparr>offset := c\<rparr>) calls buf off =
     (case read h r calls buf off of
        Panicked \<Rightarrow> Panicked
      | Returned res \<Rightarrow> Returned (res\<lparr>res_reader := r\<lparr>offset := c\<rparr>\<rparr>))"
  by (simp add: read_def Let_def split: option.splits sum.splits)

lemma read_no_hit:
  assumes "length (head r) < 2 ^ 63" "sint off + int (length buf) < 2 ^ 63"
    and "int (length (head r)) \<le> sint off + int (length buf)"
  shows "\<not> off + len64 buf <s len64 (head r)"
  using assms by (simp add: word_sless_alt sint_end sint_len64)

lemma read_fetch_ok:
  assumes "\<not> off + len64 buf <s len64 (head r)" "\<not> contentSize r \<le>s off"
    and "new_request_err h (url r) = None"
    and "client_do h calls \<lparr>req_method = MethodGet, req_url = url r,
                             req_range = Some (off, off + len64 buf - 1)\<rparr> = Inr resp"
    and "go_quot (status_code resp) 100 = 2" "body resp = Inr bs"
  shows "read h r calls buf off =
           Returned \<lparr>res_n = (if buf = [] then 0 else int (length buf)),
                     res_err = (if buf = [] then Some EOF else None),
                     res_buf = copy_bytes buf bs, res_reader = r,
                     res_calls = calls @ [\<lparr>req_method = MethodGet, req_url = url r,
                                            req_range = Some (off, off + len64 buf - 1)\<rparr>]\<rparr>"
  using assms by (simp add: read_def Let_def)

lemma Read_zero_length:
  "Read h (r\<lparr>offset := off\<rparr>) calls [] =
     (case ReadAt h r calls [] off of
        Panicked \<Rightarrow> Panicked
      | Returned res \<Rightarrow> Returned (res\<lparr>res_reader := r\<lparr>offset := off\<rparr>\<rparr>))"
proof (cases "read h r calls [] off")
  case Panicked
  then show ?thesis
    by (simp add: Read_def ReadAt_def read_cursor_independent)
next
  case (Returned res)
  from read_returned [OF Returned] have "res_n res = 0" by auto
  with Returned show ?thesis
    by (simp add: Read_def ReadAt_def read_cursor_independent)
qed

subsection \<open>Arithmetic of Seek\<close>

lemma sint_add_in_range:
  assumes "- (2 ^ 63) \<le> sint (a::int64) + sint b" "sint a + sint b < 2 ^ 63"
  shows "sint (a + b) = sint a + sint b"
  using assms by (simp add: sint_word_ariths signed_take_bit_int_eq_self)

lemma sint_diff_in_range:
  assumes "- (2 ^ 63) \<le> sint (a::int64) - sint b" "sint a - sint b < 2 ^ 63"
  shows "sint (a - b) = sint a - sint b"
  using assms by (simp add: sint_word_ariths signed_take_bit_int_eq_self)

subsection \<open>The steps of NewReader\<close>

lemma read_empty_head_returns:
  assumes "head r = []" "length buf < 2 ^ 63"
  shows "\<exists>res. read h r calls buf 0 = Returned res"
proof -
  have "sint (0 + len64 buf) = int (length buf)"
    using assms(2) by (simp add: sint_len64)
  then have nohit: "\<not> (0 + len64 buf) <s len64 (head r)"
    by (simp add: word_sless_alt assms(1) len64_def)
  show ?thesis
    using nohit
    by (simp add: read_def Let_def split: option.splits sum.splits)
qed

lemma NewReader_probe_failed:
  assumes "size_of h \<lparr>url = u, offset = 0, contentSize = 0, head = []\<rparr> calls = (Inl e, calls1)"
  shows "NewReader h calls u prefetch = Returned (None, Some e, calls1)"
  using assms by (simp add: NewReader_def)

lemma NewReader_no_prefetch:
  assumes "size_of h \<lparr>url = u, offset = 0, contentSize = 0, head = []\<rparr> calls = (Inr sz, calls1)"
    and "\<not> 0 < prefetch"
  shows "NewReader h calls u prefetch =
           Returned (Some \<lparr>url = u, offset = 0, contentSize = sz, head = []\<rparr>, None, calls1)"
  using assms by (simp add: NewReader_def)

lemma NewReader_prefetch:
  assumes "size_of h \<lparr>url = u, offset = 0, contentSize = 0, head = []\<rparr> calls = (Inr sz, calls1)"
    and "0 < prefetch" "make_ok h (nat prefetch)"
    and "ReadAt h \<lparr>url = u, offset = 0, contentSize = sz, head = []\<rparr> calls1
           (replicate (nat prefetch) 0) 0 = Returned res"
  shows "NewReader h calls u prefetch =
           Returned (Some \<lparr>url = u, offset = 0, contentSize = sz,
                           head = (if res_err res \<noteq> None then [] else res_buf res)\<rparr>,
                     None, res_calls res)"
proof -
  let ?r = "\<lparr>url = u, offset = 0, contentSize = sz, head = []\<rparr>"
  let ?buf = "replicate (nat prefetch) (0::byte)"
  have rr: "read h ?r calls1 ?buf 0 = Returned res"
    using assms(4) by (simp add: ReadAt_def)
  have len: "length (res_buf res) = length ?buf"
    using rr by (rule read_returned_length)
  have n: "(res_n res = 0 \<and> res_err res \<noteq> None) \<or>
           (res_n res = int (length ?buf) \<and> res_err res = None)"
    using read_returned [OF rr] by blast
  have keep: "\<not> res_n res < int (length (if res_err res \<noteq> None then [] else res_buf res))"
    using n len by auto
  show ?thesis
    using assms keep by (simp add: NewReader_def Let_def)
qed

lemma NewReader_make_panics:
  assumes "size_of h \<lparr>url = u, offset = 0, contentSize = 0, head = []\<rparr> calls = (Inr sz, calls1)"
    and "0 < prefetch" "\<not> make_ok h (nat prefetch)"
  shows "NewReader h calls u prefetch = Panicked"
  using assms by (simp add: NewReader_def)

subsection \<open>Evaluations against the concrete servers\<close>

lemma ParseInt_2: "ParseInt ''2'' = Inr 2"
  by (simp add: ParseInt_def ParseUint_def digit_of_def)

lemma make_ok_demo: "make_ok demo_http n = (n \<le> 281474976710656)"
  by (simp add: demo_http_def demo_make_def)

lemma size_of_head_only:
  "size_of head_only_http \<lparr>url = ''u'', offset = 0, contentSize = 0, head = []\<rparr> [] =
     (Inr 2, [\<lparr>req_method = MethodHead, req_url = ''u'', req_range = None\<rparr>])"
  by (simp add: size_of_def head_only_http_def head_only_do_def ParseInt_2)

lemma replicate_2: "replicate 2 (0::byte) = [0, 0]"
  by (simp add: numeral_eq_Suc)

lemma replicate_4: "replicate 4 (0::byte) = [0, 0, 0, 0]"
  by (simp add: numeral_eq_Suc)

lemma ReadAt_head_only:
  "ReadAt head_only_http \<lparr>url = ''u'', offset = 0, contentSize = 2, head = []\<rparr>
     [\<lparr>req_method = MethodHead, req_url = ''u'', req_range = None\<rparr>] [0, 0, 0, 0] 0 =
   Returned \<lparr>res_n = 0, res_err = Some (BadStatusCode 500), res_buf = [0, 0, 0, 0],
             res_reader = \<lparr>url = ''u'', offset = 0, contentSize = 2, head = []\<rparr>,
             res_calls = [\<lparr>req_method = MethodHead, req_url = ''u'', req_range = None\<rparr>,
                          \<lparr>req_method = MethodGet, req_url = ''u'', req_range = Some (0, 3)\<rparr>]\<rparr>"
  by code_simp

lemma size_of_demo:
  "size_of demo_http \<lparr>url = ''u'', offset = 0, contentSize = 0, head = []\<rparr> [] =
     (Inr 2, [\<lparr>req_method = MethodHead, req_url = ''u'', req_range = None\<rparr>])"
  by (simp add: size_of_def demo_http_def demo_do_def ParseInt_2)

lemma ReadAt_demo_4:
  "ReadAt demo_http demo_reader
     [\<lparr>req_method = MethodHead, req_url = ''u'', req_range = None\<rparr>] [0, 0, 0, 0] 0 =
   Returned \<lparr>res_n = 4, res_err = None, res_buf = [0x41, 0x42, 0, 0], res_reader = demo_reader,
             res_calls = [\<lparr>req_method = MethodHead, req_url = ''u'', req_range = None\<rparr>,
                          \<lparr>req_method = MethodGet, req_url = ''u'', req_range = Some (0, 3)\<rparr>]\<rparr>"
  by code_simp

lemma ReadAt_demo_2:
  "ReadAt demo_http demo_reader
     [\<lparr>req_method = MethodHead, req_url = ''u'', req_range = None\<rparr>] [0, 0] 0 =
   Returned \<lparr>res_n = 2, res_err = None, res_buf = [0x41, 0x42], res_reader = demo_reader,
             res_calls = [\<lparr>req_method = MethodHead, req_url = ''u'', req_range = None\<rparr>,
                          \<lparr>req_method = MethodGet, req_url = ''u'', req_range = Some (0, 1)\<rparr>]\<rparr>"
  by code_simp

lemma NewReader_demo_0:
  "NewReader demo_http [] ''u'' 0 =
     Returned (Some demo_reader, None,
       [\<lparr>req_method = MethodHead, req_url = ''u'', req_range = None\<rparr>])"
  using NewReader_no_prefetch [OF size_of_demo, of 0] by (simp add: demo_reader_def)

lemma NewReader_demo_2:
  "NewReader demo_http [] ''u'' 2 =
     Returned (Some prefetched_reader, None,
       [\<lparr>req_method = MethodHead, req_url = ''u'', req_range = None\<rparr>,
        \<lparr>req_method = MethodGet, req_url = ''u'', req_range = Some (0, 1)\<rparr>])"
  using ReadAt_demo_2
  by (simp add: NewReader_def size_of_demo make_ok_demo replicate_2 demo_reader_def
      prefetched_reader_def Let_def slice_to_def)

section \<open>The prefetch buffer\<close>

text \<open>
  Claim C1, as amended. For a read (\<^verbatim>\<open>ReadAt\<close> at \<open>off\<close>, or \<^verbatim>\<open>Read\<close> with the cursor
  at \<open>off\<close>) whose offset is not negative: if \<open>len(head) > off + len(buf)\<close>, with
  the strict inequality, the read copies \<open>head[off .. off + len(buf))\<close> into the
  buffer, returns \<open>len(buf)\<close> with no error, and leaves the request log as it was;
  \<^verbatim>\<open>Read\<close> moves the cursor to \<open>off + len(buf)\<close>. The bound on the length of
  \<open>head\<close> is the one Go puts on every slice.
\<close>

theorem prefetch_hit_copies_without_network:
  assumes "length (head r) < 2 ^ 63" "0 \<le> sint off"
    and "sint off + int (length buf) < int (length (head r))"
  shows "ReadAt h r calls buf off =
           Returned \<lparr>res_n = int (length buf), res_err = None,
                     res_buf = take (length buf) (drop (nat (sint off)) (head r)),
                     res_reader = r, res_calls = calls\<rparr>
       \<and> Read h (r\<lparr>offset := off\<rparr>) calls buf =
           Returned \<lparr>res_n = int (length buf), res_err = None,
                     res_buf = take (length buf) (drop (nat (sint off)) (head r)),
                     res_reader = r\<lparr>offset := off + len64 buf\<rparr>, res_calls = calls\<rparr>"
proof -
  have a: "read h r calls buf off =
           Returned \<lparr>res_n = int (length buf), res_err = None,
                     res_buf = take (length buf) (drop (nat (sint off)) (head r)),
                     res_reader = r, res_calls = calls\<rparr>"
    using assms by (rule read_hit)
  have "read h (r\<lparr>offset := off\<rparr>) calls buf off =
           Returned \<lparr>res_n = int (length buf), res_err = None,
                     res_buf = take (length buf) (drop (nat (sint off)) (head r)),
                     res_reader = r\<lparr>offset := off\<rparr>, res_calls = calls\<rparr>"
    using read_hit [of "r\<lparr>offset := off\<rparr>" off buf h calls] assms by simp
  then have b: "Read h (r\<lparr>offset := off\<rparr>) calls buf =
           Returned \<lparr>res_n = int (length buf), res_err = None,
                     res_buf = take (length buf) (drop (nat (sint off)) (head r)),
                     res_reader = r\<lparr>offset := off + len64 buf\<rparr>, res_calls = calls\<rparr>"
    by (simp add: Read_def len64_def)
  from a b show ?thesis by (simp add: ReadAt_def)
qed

text \<open>The amended C1 at the reader with two prefetched bytes and a one-byte buffer.\<close>

theorem prefetch_hit_copies_without_network_witness:
  "ReadAt demo_http prefetched_reader [] [0] 0 =
     Returned \<lparr>res_n = 1, res_err = None, res_buf = [0x41],
               res_reader = prefetched_reader, res_calls = []\<rparr>
   \<and> Read demo_http prefetched_reader [] [0] =
     Returned \<lparr>res_n = 1, res_err = None, res_buf = [0x41],
               res_reader = prefetched_reader\<lparr>offset := 1\<rparr>, res_calls = []\<rparr>"
  using prefetch_hit_copies_without_network [of prefetched_reader 0 "[0]" demo_http "[]"]
  by (simp add: prefetched_reader_def len64_def)

text \<open>
  Claim C1 as stated fails for a negative offset. With two bytes prefetched, offset
  \<open>-1\<close> and a one-byte buffer, \<open>len(head) = 2 > -1 + 1\<close>, so the prefetch branch is
  taken, and the slice expression \<^verbatim>\<open>r.head[-1:0]\<close> panics: nothing is copied and
  nothing is returned.
\<close>

theorem prefetch_hit_negative_offset_counterexample:
  "sint (- 1 :: int64) + int (length [0 :: byte]) < int (length (head prefetched_reader))
   \<and> ReadAt demo_http prefetched_reader [] [0] (- 1) = Panicked
   \<and> Read demo_http (prefetched_reader\<lparr>offset := - 1\<rparr>) [] [0] = Panicked"
  by code_simp

section \<open>End of stream\<close>

text \<open>
  Claim C2, as amended. The test for the end of the stream comes second. When the
  prefetch test before it does not fire, that is \<open>len(head) \<le> off + len(buf)\<close> with
  \<open>off + len(buf)\<close> inside \<^verbatim>\<open>int64\<close>, a read at \<open>off \<ge> contentSize\<close> returns
  \<open>0\<close> and \<^verbatim>\<open>io.EOF\<close>, leaves the buffer and the cursor alone and makes no
  request. The first condition follows from \<open>len(head) \<le> contentSize\<close>.
\<close>

theorem read_past_end_is_EOF:
  assumes "length (head r) < 2 ^ 63" "sint off + int (length buf) < 2 ^ 63"
    and "int (length (head r)) \<le> sint off + int (length buf)"
    and "sint (contentSize r) \<le> sint off"
  shows "ReadAt h r calls buf off =
           Returned \<lparr>res_n = 0, res_err = Some EOF, res_buf = buf, res_reader = r,
                     res_calls = calls\<rparr>
       \<and> Read h (r\<lparr>offset := off\<rparr>) calls buf =
           Returned \<lparr>res_n = 0, res_err = Some EOF, res_buf = buf,
                     res_reader = r\<lparr>offset := off\<rparr>, res_calls = calls\<rparr>"
proof -
  have a: "read h r calls buf off =
           Returned \<lparr>res_n = 0, res_err = Some EOF, res_buf = buf, res_reader = r,
                     res_calls = calls\<rparr>"
    using assms by (rule read_eof)
  have "read h (r\<lparr>offset := off\<rparr>) calls buf off =
           Returned \<lparr>res_n = 0, res_err = Some EOF, res_buf = buf,
                     res_reader = r\<lparr>offset := off\<rparr>, res_calls = calls\<rparr>"
    using read_eof [of "r\<lparr>offset := off\<rparr>" off buf h calls] assms by simp
  then have b: "Read h (r\<lparr>offset := off\<rparr>) calls buf =
           Returned \<lparr>res_n = 0, res_err = Some EOF, res_buf = buf,
                     res_reader = r\<lparr>offset := off\<rparr>, res_calls = calls\<rparr>"
    by (simp add: Read_def)
  from a b show ?thesis by (simp add: ReadAt_def)
qed

text \<open>The amended C2 at offset 2 of the two-byte resource.\<close>

theorem read_past_end_is_EOF_witness:
  "ReadAt demo_http demo_reader [] [7] 2 =
     Returned \<lparr>res_n = 0, res_err = Some EOF, res_buf = [7], res_reader = demo_reader,
               res_calls = []\<rparr>
   \<and> Read demo_http (demo_reader\<lparr>offset := 2\<rparr>) [] [7] =
     Returned \<lparr>res_n = 0, res_err = Some EOF, res_buf = [7],
               res_reader = demo_reader\<lparr>offset := 2\<rparr>, res_calls = []\<rparr>"
  using read_past_end_is_EOF [of demo_reader 2 "[7]" demo_http "[]"]
  by (simp add: demo_reader_def)

text \<open>
  Claim C2 as stated fails in two ways. At offset \<open>2 ^ 63 - 1\<close> with a one-byte
  buffer the sum \<^verbatim>\<open>offset + int64(len(buf))\<close> wraps to \<open>- 2 ^ 63\<close>, the prefetch
  test fires and the slice expression panics. And for the reader that
  \<^verbatim>\<open>NewReader\<close> makes with \<^verbatim>\<open>prefetch = 4\<close> for the two-byte resource, a read
  at offset \<open>2 = contentSize\<close> is served from the prefetch buffer: one byte, no
  error.
\<close>

theorem read_past_end_counterexample:
  "contentSize demo_reader \<le>s 0x7FFFFFFFFFFFFFFF
   \<and> ReadAt demo_http demo_reader [] [7] 0x7FFFFFFFFFFFFFFF = Panicked
   \<and> contentSize overlong_reader \<le>s 2
   \<and> ReadAt demo_http overlong_reader [] [7] 2 =
       Returned \<lparr>res_n = 1, res_err = None, res_buf = [0], res_reader = overlong_reader,
                 res_calls = []\<rparr>"
  by code_simp

section \<open>The size of the prefetch buffer\<close>

text \<open>
  Claim C3 does not hold of the code. \<^verbatim>\<open>NewReader\<close> with \<^verbatim>\<open>prefetch = 4\<close> for a
  resource of two bytes gets a two-byte body from the ranged GET, but \<^verbatim>\<open>read\<close>
  reports \<open>4 = len(buf)\<close>, so the truncation \<^verbatim>\<open>head = head[:total]\<close> does not
  happen: the stored buffer is the two bytes followed by two zero bytes, and its
  length 4 exceeds \<open>contentSize = 2\<close>.
\<close>

theorem NewReader_keeps_whole_prefetch_buffer:
  "NewReader demo_http [] ''u'' 4 =
     Returned (Some overlong_reader, None,
       [\<lparr>req_method = MethodHead, req_url = ''u'', req_range = None\<rparr>,
        \<lparr>req_method = MethodGet, req_url = ''u'', req_range = Some (0, 3)\<rparr>])
   \<and> length demo_content = 2
   \<and> sint (contentSize overlong_reader) = 2
   \<and> head overlong_reader = demo_content @ [0, 0]
   \<and> \<not> int (length (head overlong_reader)) \<le> sint (contentSize overlong_reader)"
proof -
  have "NewReader demo_http [] ''u'' 4 =
     Returned (Some overlong_reader, None,
       [\<lparr>req_method = MethodHead, req_url = ''u'', req_range = None\<rparr>,
        \<lparr>req_method = MethodGet, req_url = ''u'', req_range = Some (0, 3)\<rparr>])"
    using ReadAt_demo_4
    by (simp add: NewReader_def size_of_demo make_ok_demo replicate_4 demo_reader_def
        overlong_reader_def Let_def slice_to_def)
  then show ?thesis
    by (simp add: overlong_reader_def demo_content_def)
qed

section \<open>Read and the cursor\<close>

text \<open>
  Claim C4. Whenever \<^verbatim>\<open>n, err := Read(buf)\<close> returns, the cursor afterwards is the
  cursor before plus \<open>n\<close>, as integers and without wrap-around, for the full count,
  and for \<open>n = 0\<close> with an error alike. The two bounds are those Go puts on every
  slice length.
\<close>

theorem Read_advances_cursor_by_n:
  assumes "length buf < 2 ^ 63" "length (head r) < 2 ^ 63"
    and "Read h r calls buf = Returned res"
  shows "sint (offset (res_reader res)) = sint (offset r) + res_n res"
proof -
  from assms(3) obtain res0 where
    r0: "read h r calls buf (offset r) = Returned res0" and
    res: "res = res0\<lparr>res_reader :=
            (res_reader res0)\<lparr>offset := offset (res_reader res0) + word_of_int (res_n res0)\<rparr>\<rparr>"
    by (auto simp: Read_def split: outcome.splits)
  have rd: "res_reader res0 = r" and
    cases: "res_n res0 = 0 \<or> res_n res0 = int (length buf)"
    using read_returned [OF r0] by auto
  have nw: "sint (offset r) + int (length buf) < 2 ^ 63"
    using assms(1,2) r0 by (rule read_returned_no_wrap)
  from cases show ?thesis
  proof
    assume "res_n res0 = 0"
    then show ?thesis by (simp add: res rd)
  next
    assume n: "res_n res0 = int (length buf)"
    have "sint (offset r + word_of_nat (length buf)) = sint (offset r) + int (length buf)"
      using nw by (rule sint_add_nat)
    then show ?thesis by (simp add: res rd n)
  qed
qed

theorem Read_advances_cursor_by_n_witness:
  "Read demo_http demo_reader [] [0, 0] =
     Returned \<lparr>res_n = 2, res_err = None, res_buf = [0x41, 0x42],
               res_reader = demo_reader\<lparr>offset := 2\<rparr>,
               res_calls = [\<lparr>req_method = MethodGet, req_url = ''u'',
                              req_range = Some (0, 1)\<rparr>]\<rparr>
   \<and> sint (offset (demo_reader\<lparr>offset := 2\<rparr>)) = sint (offset demo_reader) + 2"
proof -
  have ev: "Read demo_http demo_reader [] [0, 0] =
     Returned \<lparr>res_n = 2, res_err = None, res_buf = [0x41, 0x42],
               res_reader = demo_reader\<lparr>offset := 2\<rparr>,
               res_calls = [\<lparr>req_method = MethodGet, req_url = ''u'',
                              req_range = Some (0, 1)\<rparr>]\<rparr>"
    by code_simp
  have b: "length [0, 0 :: byte] < 2 ^ 63" "length (head demo_reader) < 2 ^ 63"
    by (simp_all add: demo_reader_def)
  show ?thesis
    using Read_advances_cursor_by_n [OF b ev] ev by simp
qed

section \<open>Seek\<close>

text \<open>
  Claim C5. \<^verbatim>\<open>Seek\<close> sets the cursor to \<open>off\<close> for \<^verbatim>\<open>io.SeekStart\<close>, to
  \<open>cursor + off\<close> for \<^verbatim>\<open>io.SeekCurrent\<close> and to \<open>contentSize - off\<close> for
  \<^verbatim>\<open>io.SeekEnd\<close>, and returns the new cursor with no error; for every other
  \<open>whence\<close> it returns \<open>0\<close> and the error "Mode not implemented" and leaves the
  reader as it was. In every case the request log is unchanged. Sum and
  difference are those of \<^verbatim>\<open>int64\<close>; they are the integer sum and difference
  whenever these fit.
\<close>

theorem Seek_sets_cursor:
  "Seek r calls off SeekStart = (off, None, r\<lparr>offset := off\<rparr>, calls)
   \<and> Seek r calls off SeekCurrent = (offset r + off, None, r\<lparr>offset := offset r + off\<rparr>, calls)
   \<and> Seek r calls off SeekEnd =
         (contentSize r - off, None, r\<lparr>offset := contentSize r - off\<rparr>, calls)
   \<and> (whence \<noteq> SeekStart \<and> whence \<noteq> SeekCurrent \<and> whence \<noteq> SeekEnd \<longrightarrow>
         Seek r calls off whence = (0, Some (ModeNotImplemented whence), r, calls))
   \<and> (- (2 ^ 63) \<le> sint (offset r) + sint off \<and> sint (offset r) + sint off < 2 ^ 63 \<longrightarrow>
         sint (offset r + off) = sint (offset r) + sint off)
   \<and> (- (2 ^ 63) \<le> sint (contentSize r) - sint off \<and> sint (contentSize r) - sint off < 2 ^ 63 \<longrightarrow>
         sint (contentSize r - off) = sint (contentSize r) - sint off)"
  by (simp add: Seek_def SeekStart_def SeekCurrent_def SeekEnd_def Let_def
      sint_add_in_range sint_diff_in_range)

text \<open>C5 at \<open>whence = 3\<close>, and at a sum and a difference that fit.\<close>

theorem Seek_sets_cursor_witness:
  "Seek demo_reader [] 5 3 = (0, Some (ModeNotImplemented 3), demo_reader, [])
   \<and> Seek (demo_reader\<lparr>offset := 1\<rparr>) [] 5 SeekCurrent =
         (6, None, demo_reader\<lparr>offset := 6\<rparr>, [])
   \<and> sint (6 :: int64) = 6
   \<and> Seek demo_reader [] 5 SeekEnd = (- 3, None, demo_reader\<lparr>offset := - 3\<rparr>, [])
   \<and> sint (- 3 :: int64) = - 3"
  using Seek_sets_cursor [of "demo_reader\<lparr>offset := 1\<rparr>" "[]" 5 3]
    Seek_sets_cursor [of demo_reader "[]" 5 3]
  by (simp add: demo_reader_def SeekStart_def SeekCurrent_def SeekEnd_def)

section \<open>ReadAt and the reader state\<close>

text \<open>
  Claim C6. A \<^verbatim>\<open>ReadAt\<close> that returns hands back the reader it was given, with
  the cursor, URL, size and prefetch buffer it had. Its outcome does not depend
  on the cursor: with any other cursor \<open>c\<close> it panics in the same cases and
  returns the same count, error, bytes and requests.
\<close>

theorem ReadAt_leaves_reader_unchanged:
  "(\<forall>res. ReadAt h r calls buf off = Returned res \<longrightarrow> res_reader res = r)
   \<and> (ReadAt h (r\<lparr>offset := c\<rparr>) calls buf off = Panicked
        \<longleftrightarrow> ReadAt h r calls buf off = Panicked)
   \<and> (\<forall>res. ReadAt h r calls buf off = Returned res \<longrightarrow>
         ReadAt h (r\<lparr>offset := c\<rparr>) calls buf off =
           Returned (res\<lparr>res_reader := r\<lparr>offset := c\<rparr>\<rparr>))"
proof -
  have a: "\<forall>res. ReadAt h r calls buf off = Returned res \<longrightarrow> res_reader res = r"
    using read_returned [of h r calls buf off] by (simp add: ReadAt_def)
  have b: "ReadAt h (r\<lparr>offset := c\<rparr>) calls buf off = Panicked
        \<longleftrightarrow> ReadAt h r calls buf off = Panicked"
    by (simp add: ReadAt_def read_cursor_independent split: outcome.splits)
  have c: "\<forall>res. ReadAt h r calls buf off = Returned res \<longrightarrow>
         ReadAt h (r\<lparr>offset := c\<rparr>) calls buf off =
           Returned (res\<lparr>res_reader := r\<lparr>offset := c\<rparr>\<rparr>)"
    by (simp add: ReadAt_def read_cursor_independent)
  from a b c show ?thesis by blast
qed

text \<open>C6 at a one-byte read of the second byte, with cursors 0 and 9.\<close>

theorem ReadAt_leaves_reader_unchanged_witness:
  "ReadAt demo_http demo_reader [] [0] 1 =
     Returned \<lparr>res_n = 1, res_err = None, res_buf = [0x42], res_reader = demo_reader,
               res_calls = [\<lparr>req_method = MethodGet, req_url = ''u'',
                              req_range = Some (1, 1)\<rparr>]\<rparr>
   \<and> ReadAt demo_http (demo_reader\<lparr>offset := 9\<rparr>) [] [0] 1 =
     Returned \<lparr>res_n = 1, res_err = None, res_buf = [0x42],
               res_reader = demo_reader\<lparr>offset := 9\<rparr>,
               res_calls = [\<lparr>req_method = MethodGet, req_url = ''u'',
                              req_range = Some (1, 1)\<rparr>]\<rparr>"
proof -
  have ev: "ReadAt demo_http demo_reader [] [0] 1 =
     Returned \<lparr>res_n = 1, res_err = None, res_buf = [0x42], res_reader = demo_reader,
               res_calls = [\<lparr>req_method = MethodGet, req_url = ''u'',
                              req_range = Some (1, 1)\<rparr>]\<rparr>"
    by code_simp
  show ?thesis
    using ReadAt_leaves_reader_unchanged [of demo_http demo_reader "[]" "[0]" 1 9] ev
    by simp
qed

section \<open>Construction\<close>

text \<open>
  Claim C7, as amended. If the HEAD probe fails, \<^verbatim>\<open>NewReader\<close> returns \<^verbatim>\<open>nil\<close> and
  the error of the probe. If the probe succeeds and \<open>prefetch \<le> 0\<close>, it returns
  a reader with cursor 0, the size from the probe and an empty prefetch buffer,
  and no error. If the probe succeeds, \<open>prefetch > 0\<close> and the runtime can make
  the prefetch buffer, the prefetch read returns, and \<^verbatim>\<open>NewReader\<close> returns a
  reader with cursor 0 and the size from the probe, and no error; its prefetch
  buffer is empty if the prefetch read returned an error, whichever it is, and
  the buffer of the prefetch read otherwise. Whenever
  \<^verbatim>\<open>NewReader\<close> returns, it returns \<^verbatim>\<open>nil\<close> exactly when it returns an error, and
  exactly when the probe failed. The bound on \<open>prefetch\<close> is the range of Go's
  \<^verbatim>\<open>int\<close>.
\<close>

theorem NewReader_fails_only_on_probe:
  assumes "prefetch < 2 ^ 63"
  shows "(\<forall>e calls1.
            size_of h \<lparr>url = u, offset = 0, contentSize = 0, head = []\<rparr> calls = (Inl e, calls1) \<longrightarrow>
            NewReader h calls u prefetch = Returned (None, Some e, calls1))
       \<and> (\<forall>sz calls1.
            size_of h \<lparr>url = u, offset = 0, contentSize = 0, head = []\<rparr> calls = (Inr sz, calls1) \<and>
            \<not> 0 < prefetch \<longrightarrow>
            NewReader h calls u prefetch =
              Returned (Some \<lparr>url = u, offset = 0, contentSize = sz, head = []\<rparr>, None, calls1))
       \<and> (\<forall>sz calls1.
            size_of h \<lparr>url = u, offset = 0, contentSize = 0, head = []\<rparr> calls = (Inr sz, calls1) \<and>
            0 < prefetch \<and> make_ok h (nat prefetch) \<longrightarrow>
            (\<exists>res. ReadAt h \<lparr>url = u, offset = 0, contentSize = sz, head = []\<rparr> calls1
                     (replicate (nat prefetch) 0) 0 = Returned res \<and>
                   NewReader h calls u prefetch =
                     Returned (Some \<lparr>url = u, offset = 0, contentSize = sz,
                                     head = (if res_err res \<noteq> None then [] else res_buf res)\<rparr>,
                               None, res_calls res)))
       \<and> (\<forall>sz calls1 res.
            0 < prefetch \<and> make_ok h (nat prefetch) \<and>
            size_of h \<lparr>url = u, offset = 0, contentSize = 0, head = []\<rparr> calls = (Inr sz, calls1) \<and>
            ReadAt h \<lparr>url = u, offset = 0, contentSize = sz, head = []\<rparr> calls1
              (replicate (nat prefetch) 0) 0 = Returned res \<and>
            res_err res \<noteq> None \<longrightarrow>
            NewReader h calls u prefetch =
              Returned (Some \<lparr>url = u, offset = 0, contentSize = sz, head = []\<rparr>, None,
                        res_calls res))
       \<and> (\<forall>ro eo calls2.
            NewReader h calls u prefetch = Returned (ro, eo, calls2) \<longrightarrow>
            (ro = None \<longleftrightarrow> eo \<noteq> None) \<and>
            (ro = None \<longleftrightarrow>
               (\<exists>e calls1. size_of h \<lparr>url = u, offset = 0, contentSize = 0, head = []\<rparr> calls =
                              (Inl e, calls1))))"
proof -
  let ?r0 = "\<lparr>url = u, offset = 0, contentSize = 0, head = []\<rparr>"
  have one: "NewReader h calls u prefetch = Returned (None, Some e, calls1)"
    if "size_of h ?r0 calls = (Inl e, calls1)" for e calls1
    using that by (rule NewReader_probe_failed)
  have two_a: "NewReader h calls u prefetch =
          Returned (Some \<lparr>url = u, offset = 0, contentSize = sz, head = []\<rparr>, None, calls1)"
    if sz: "size_of h ?r0 calls = (Inr sz, calls1)" and np: "\<not> 0 < prefetch" for sz calls1
    using sz np by (rule NewReader_no_prefetch)
  have two_b: "\<exists>res. ReadAt h \<lparr>url = u, offset = 0, contentSize = sz, head = []\<rparr> calls1
                     (replicate (nat prefetch) 0) 0 = Returned res \<and>
                   NewReader h calls u prefetch =
                     Returned (Some \<lparr>url = u, offset = 0, contentSize = sz,
                                     head = (if res_err res \<noteq> None then [] else res_buf res)\<rparr>,
                               None, res_calls res)"
    if sz: "size_of h ?r0 calls = (Inr sz, calls1)"
      and pos: "0 < prefetch" and mk: "make_ok h (nat prefetch)" for sz calls1
  proof -
    let ?r = "\<lparr>url = u, offset = 0, contentSize = sz, head = []\<rparr>"
    have "length (replicate (nat prefetch) (0::byte)) < 2 ^ 63"
      using assms pos by simp
    then obtain res where
      "read h ?r calls1 (replicate (nat prefetch) 0) 0 = Returned res"
      using read_empty_head_returns [of ?r "replicate (nat prefetch) 0" h calls1] by auto
    then have rd: "ReadAt h ?r calls1 (replicate (nat prefetch) 0) 0 = Returned res"
      by (simp add: ReadAt_def)
    from NewReader_prefetch [OF sz pos mk rd] rd show ?thesis by blast
  qed
  have three: "NewReader h calls u prefetch =
              Returned (Some \<lparr>url = u, offset = 0, contentSize = sz, head = []\<rparr>, None,
                        res_calls res)"
    if pos: "0 < prefetch" and mk: "make_ok h (nat prefetch)"
      and sz: "size_of h ?r0 calls = (Inr sz, calls1)"
      and rd: "ReadAt h \<lparr>url = u, offset = 0, contentSize = sz, head = []\<rparr> calls1
              (replicate (nat prefetch) 0) 0 = Returned res"
      and err: "res_err res \<noteq> None" for sz calls1 res
    using NewReader_prefetch [OF sz pos mk rd] err by simp
  have four: "(ro = None \<longleftrightarrow> eo \<noteq> None) \<and>
            (ro = None \<longleftrightarrow> (\<exists>e calls1. size_of h ?r0 calls = (Inl e, calls1)))"
    if ret: "NewReader h calls u prefetch = Returned (ro, eo, calls2)" for ro eo calls2
  proof (cases "size_of h ?r0 calls")
    case (Pair res calls1)
    show ?thesis
    proof (cases res)
      case (Inl e)
      with Pair ret one [of e calls1] show ?thesis by auto
    next
      case (Inr sz)
      with Pair have sz: "size_of h ?r0 calls = (Inr sz, calls1)" by simp
      have "ro \<noteq> None \<and> eo = None"
      proof (cases "0 < prefetch")
        case False
        with two_a [OF sz] ret show ?thesis by simp
      next
        case pos: True
        have mk: "make_ok h (nat prefetch)"
        proof (rule ccontr)
          assume "\<not> make_ok h (nat prefetch)"
          with sz pos have "NewReader h calls u prefetch = Panicked"
            by (rule NewReader_make_panics)
          with ret show False by simp
        qed
        from two_b [OF sz pos mk] ret show ?thesis by auto
      qed
      with sz show ?thesis by auto
    qed
  qed
  from one two_a two_b three four show ?thesis by blast
qed

text \<open>The amended C7 at a server whose GET fails with status 500, and at a client
  that cannot connect.\<close>

theorem NewReader_fails_only_on_probe_witness:
  "NewReader head_only_http [] ''u'' 4 =
     Returned (Some \<lparr>url = ''u'', offset = 0, contentSize = 2, head = []\<rparr>, None,
               [\<lparr>req_method = MethodHead, req_url = ''u'', req_range = None\<rparr>,
                \<lparr>req_method = MethodGet, req_url = ''u'', req_range = Some (0, 3)\<rparr>])
   \<and> NewReader down_http [] ''u'' 4 =
     Returned (None, Some (LibError ''dial tcp: connection refused''),
               [\<lparr>req_method = MethodHead, req_url = ''u'', req_range = None\<rparr>])"
proof -
  have d: "size_of down_http \<lparr>url = ''u'', offset = 0, contentSize = 0, head = []\<rparr> [] =
     (Inl (LibError ''dial tcp: connection refused''),
      [\<lparr>req_method = MethodHead, req_url = ''u'', req_range = None\<rparr>])"
    by (simp add: size_of_def down_http_def)
  have b: "(4::int) < 2 ^ 63" by simp
  have mk: "make_ok head_only_http (nat 4)"
    by (simp add: head_only_http_def demo_make_def)
  have rd: "ReadAt head_only_http \<lparr>url = ''u'', offset = 0, contentSize = 2, head = []\<rparr>
     [\<lparr>req_method = MethodHead, req_url = ''u'', req_range = None\<rparr>]
     (replicate (nat 4) 0) 0 =
   Returned \<lparr>res_n = 0, res_err = Some (BadStatusCode 500), res_buf = [0, 0, 0, 0],
             res_reader = \<lparr>url = ''u'', offset = 0, contentSize = 2, head = []\<rparr>,
             res_calls = [\<lparr>req_method = MethodHead, req_url = ''u'', req_range = None\<rparr>,
                          \<lparr>req_method = MethodGet, req_url = ''u'', req_range = Some (0, 3)\<rparr>]\<rparr>"
    using ReadAt_head_only by (simp add: replicate_4)
  have one: "NewReader head_only_http [] ''u'' 4 =
     Returned (Some \<lparr>url = ''u'', offset = 0, contentSize = 2, head = []\<rparr>, None,
               [\<lparr>req_method = MethodHead, req_url = ''u'', req_range = None\<rparr>,
                \<lparr>req_method = MethodGet, req_url = ''u'', req_range = Some (0, 3)\<rparr>])"
    using NewReader_fails_only_on_probe [OF b, of head_only_http "''u''" "[]"]
      size_of_head_only rd mk
    by fastforce
  have two: "NewReader down_http [] ''u'' 4 =
     Returned (None, Some (LibError ''dial tcp: connection refused''),
               [\<lparr>req_method = MethodHead, req_url = ''u'', req_range = None\<rparr>])"
    using NewReader_fails_only_on_probe [OF b, of down_http "''u''" "[]"] d
    by blast
  from one two show ?thesis by simp
qed

text \<open>
  Claim C7 as stated fails for a prefetch length the runtime cannot allocate. At
  \<open>prefetch = 2 ^ 62\<close> the probe of the two-byte resource succeeds, and
  \<^verbatim>\<open>make([]byte, prefetch)\<close> panics: no reader and no error come back, although the
  probe did not fail.
\<close>

theorem NewReader_huge_prefetch_counterexample:
  "size_of demo_http \<lparr>url = ''u'', offset = 0, contentSize = 0, head = []\<rparr> [] =
     (Inr 2, [\<lparr>req_method = MethodHead, req_url = ''u'', req_range = None\<rparr>])
   \<and> (0::int) < 4611686018427387904
   \<and> (4611686018427387904::int) = 2 ^ 62
   \<and> NewReader demo_http [] ''u'' 4611686018427387904 = Panicked"
proof -
  have "\<not> make_ok demo_http (nat 4611686018427387904)"
    by (simp add: demo_http_def demo_make_def)
  with size_of_demo have "NewReader demo_http [] ''u'' 4611686018427387904 = Panicked"
    by (intro NewReader_make_panics) simp_all
  with size_of_demo show ?thesis by simp
qed

section \<open>The byte count of a read\<close>

text \<open>
  Claim C8. For a non-empty buffer, a positional read that returns has either
  \<open>n = 0\<close> with an error and the buffer untouched, or \<open>n = len(buf)\<close> with no
  error. The second holds also when the body of a successful ranged GET is
  shorter than the buffer: the body overwrites the front of the buffer, the
  bytes behind it stay, and \<open>n\<close> is still \<open>len(buf)\<close>.
\<close>

theorem read_never_returns_partial_count:
  assumes "buf \<noteq> []"
  shows "(\<forall>res. ReadAt h r calls buf off = Returned res \<longrightarrow>
            (res_n res = 0 \<and> res_err res \<noteq> None \<and> res_buf res = buf) \<or>
            (res_n res = int (length buf) \<and> res_err res = None \<and>
             length (res_buf res) = length buf))
       \<and> (\<forall>resp bs.
            \<not> off + len64 buf <s len64 (head r) \<and> \<not> contentSize r \<le>s off \<and>
            new_request_err h (url r) = None \<and>
            client_do h calls \<lparr>req_method = MethodGet, req_url = url r,
                                req_range = Some (off, off + len64 buf - 1)\<rparr> = Inr resp \<and>
            go_quot (status_code resp) 100 = 2 \<and> body resp = Inr bs \<and>
            length bs < length buf \<longrightarrow>
            ReadAt h r calls buf off =
              Returned \<lparr>res_n = int (length buf), res_err = None,
                        res_buf = bs @ drop (length bs) buf, res_reader = r,
                        res_calls = calls @ [\<lparr>req_method = MethodGet, req_url = url r,
                                               req_range = Some (off, off + len64 buf - 1)\<rparr>]\<rparr>)"
proof (intro conjI allI impI)
  fix res
  assume "ReadAt h r calls buf off = Returned res"
  then have rr: "read h r calls buf off = Returned res"
    by (simp add: ReadAt_def)
  from read_returned [OF rr] read_returned_length [OF rr]
  show "(res_n res = 0 \<and> res_err res \<noteq> None \<and> res_buf res = buf) \<or>
        (res_n res = int (length buf) \<and> res_err res = None \<and>
         length (res_buf res) = length buf)"
    by blast
next
  fix resp bs
  assume a: "\<not> off + len64 buf <s len64 (head r) \<and> \<not> contentSize r \<le>s off \<and>
            new_request_err h (url r) = None \<and>
            client_do h calls \<lparr>req_method = MethodGet, req_url = url r,
                                req_range = Some (off, off + len64 buf - 1)\<rparr> = Inr resp \<and>
            go_quot (status_code resp) 100 = 2 \<and> body resp = Inr bs \<and>
            length bs < length buf"
  then have "\<not> off + len64 buf <s len64 (head r)" "\<not> contentSize r \<le>s off"
    "new_request_err h (url r) = None"
    "client_do h calls \<lparr>req_method = MethodGet, req_url = url r,
                         req_range = Some (off, off + len64 buf - 1)\<rparr> = Inr resp"
    "go_quot (status_code resp) 100 = 2" "body resp = Inr bs"
    by simp_all
  then have "read h r calls buf off =
           Returned \<lparr>res_n = (if buf = [] then 0 else int (length buf)),
                     res_err = (if buf = [] then Some EOF else None),
                     res_buf = copy_bytes buf bs, res_reader = r,
                     res_calls = calls @ [\<lparr>req_method = MethodGet, req_url = url r,
                                            req_range = Some (off, off + len64 buf - 1)\<rparr>]\<rparr>"
    by (rule read_fetch_ok)
  moreover have "copy_bytes buf bs = bs @ drop (length bs) buf"
    using a by (intro copy_bytes_short) simp
  ultimately show "ReadAt h r calls buf off =
              Returned \<lparr>res_n = int (length buf), res_err = None,
                        res_buf = bs @ drop (length bs) buf, res_reader = r,
                        res_calls = calls @ [\<lparr>req_method = MethodGet, req_url = url r,
                                               req_range = Some (off, off + len64 buf - 1)\<rparr>]\<rparr>"
    using assms by (simp add: ReadAt_def)
qed

text \<open>C8 at a four-byte read of the two-byte resource.\<close>

theorem read_never_returns_partial_count_witness:
  "ReadAt demo_http demo_reader [] [7, 7, 7, 7] 0 =
     Returned \<lparr>res_n = 4, res_err = None, res_buf = [0x41, 0x42, 7, 7],
               res_reader = demo_reader,
               res_calls = [\<lparr>req_method = MethodGet, req_url = ''u'',
                              req_range = Some (0, 3)\<rparr>]\<rparr>"
proof -
  let ?resp = "\<lparr>status_code = 206, content_length = [], body = Inr [0x41, 0x42 :: byte]\<rparr>"
  have ne: "[7, 7, 7, 7 :: byte] \<noteq> []" by simp
  have e1: "(0 :: int64) + len64 [7, 7, 7, 7 :: byte] - 1 = 3"
    by (simp add: len64_def)
  have prem: "\<not> (0 :: int64) + len64 [7, 7, 7, 7 :: byte] <s len64 (head demo_reader) \<and>
      \<not> contentSize demo_reader \<le>s 0 \<and>
      new_request_err demo_http (url demo_reader) = None \<and>
      client_do demo_http [] \<lparr>req_method = MethodGet, req_url = url demo_reader,
          req_range = Some (0, 0 + len64 [7, 7, 7, 7 :: byte] - 1)\<rparr> = Inr ?resp \<and>
      go_quot (status_code ?resp) 100 = 2 \<and> body ?resp = Inr [0x41, 0x42] \<and>
      length [0x41, 0x42 :: byte] < length [7, 7, 7, 7 :: byte]"
    by (simp add: e1 len64_def demo_reader_def demo_http_def demo_do_def demo_content_def
        word_sless_alt word_sle_eq go_quot_def)
  note t = read_never_returns_partial_count [OF ne, of demo_http demo_reader "[]" 0,
      THEN conjunct2, THEN spec, THEN spec, THEN mp]
  from t [OF prem] show ?thesis
    by (simp add: len64_def demo_reader_def)
qed

section \<open>Zero-length buffers\<close>

text \<open>
  Claim C9, as amended. With a zero-length buffer: at \<open>0 \<le> off < len(head)\<close> the
  read returns \<open>0\<close> with no error and no request; at \<open>off \<ge> len(head)\<close> and
  \<open>off \<ge> contentSize\<close> it returns \<^verbatim>\<open>io.EOF\<close> with no request; at
  \<open>len(head) \<le> off < contentSize\<close> it returns \<open>0\<close> and an error in every case:
  the error of \<^verbatim>\<open>http.NewRequest\<close>, with no request, if the URL is rejected;
  otherwise it first sends the ranged GET for \<open>[off, off - 1]\<close>, and the error is
  that of \<^verbatim>\<open>client.Do\<close> if it fails, "Bad status code" with the status if that is
  not 2xx, that of reading the body if it fails, and \<^verbatim>\<open>io.EOF\<close> otherwise.
  \<^verbatim>\<open>Read\<close> with the cursor at \<open>off\<close> does the same and leaves the cursor at
  \<open>off\<close>.
\<close>

theorem zero_length_read:
  assumes "length (head r) < 2 ^ 63"
  shows "(0 \<le> sint off \<and> sint off < int (length (head r)) \<longrightarrow>
            ReadAt h r calls [] off =
              Returned \<lparr>res_n = 0, res_err = None, res_buf = [], res_reader = r,
                        res_calls = calls\<rparr>)
       \<and> (int (length (head r)) \<le> sint off \<and> sint (contentSize r) \<le> sint off \<longrightarrow>
            ReadAt h r calls [] off =
              Returned \<lparr>res_n = 0, res_err = Some EOF, res_buf = [], res_reader = r,
                        res_calls = calls\<rparr>)
       \<and> (int (length (head r)) \<le> sint off \<and> sint off < sint (contentSize r) \<longrightarrow>
            ReadAt h r calls [] off =
              (case new_request_err h (url r) of
                 Some e \<Rightarrow>
                   Returned \<lparr>res_n = 0, res_err = Some e, res_buf = [], res_reader = r,
                             res_calls = calls\<rparr>
               | None \<Rightarrow>
                   Returned \<lparr>res_n = 0,
                     res_err = Some
                       (case client_do h calls \<lparr>req_method = MethodGet, req_url = url r,
                                                 req_range = Some (off, off - 1)\<rparr> of
                          Inl e \<Rightarrow> e
                        | Inr resp \<Rightarrow>
                            if go_quot (status_code resp) 100 \<noteq> 2
                            then BadStatusCode (status_code resp)
                            else (case body resp of Inl e \<Rightarrow> e | Inr bs \<Rightarrow> EOF)),
                     res_buf = [], res_reader = r,
                     res_calls = calls @ [\<lparr>req_method = MethodGet, req_url = url r,
                                            req_range = Some (off, off - 1)\<rparr>]\<rparr>))
       \<and> Read h (r\<lparr>offset := off\<rparr>) calls [] =
            (case ReadAt h r calls [] off of
               Panicked \<Rightarrow> Panicked
             | Returned res \<Rightarrow> Returned (res\<lparr>res_reader := r\<lparr>offset := off\<rparr>\<rparr>))"
proof (intro conjI impI)
  assume "0 \<le> sint off \<and> sint off < int (length (head r))"
  then show "ReadAt h r calls [] off =
              Returned \<lparr>res_n = 0, res_err = None, res_buf = [], res_reader = r,
                        res_calls = calls\<rparr>"
    using read_hit [of r off "[]" h calls] assms by (simp add: ReadAt_def)
next
  assume "int (length (head r)) \<le> sint off \<and> sint (contentSize r) \<le> sint off"
  then show "ReadAt h r calls [] off =
              Returned \<lparr>res_n = 0, res_err = Some EOF, res_buf = [], res_reader = r,
                        res_calls = calls\<rparr>"
    using read_eof [of r off "[]" h calls] assms sint_lt [of off] by (simp add: ReadAt_def)
next
  assume a: "int (length (head r)) \<le> sint off \<and> sint off < sint (contentSize r)"
  have nohit: "\<not> off + len64 [] <s len64 (head r)"
    using read_no_hit [of r off "[]"] a assms sint_lt [of off] by simp
  have noeof: "\<not> contentSize r \<le>s off"
    using a by (simp add: word_sle_eq)
  show "ReadAt h r calls [] off =
              (case new_request_err h (url r) of
                 Some e \<Rightarrow>
                   Returned \<lparr>res_n = 0, res_err = Some e, res_buf = [], res_reader = r,
                             res_calls = calls\<rparr>
               | None \<Rightarrow>
                   Returned \<lparr>res_n = 0,
                     res_err = Some
                       (case client_do h calls \<lparr>req_method = MethodGet, req_url = url r,
                                                 req_range = Some (off, off - 1)\<rparr> of
                          Inl e \<Rightarrow> e
                        | Inr resp \<Rightarrow>
                            if go_quot (status_code resp) 100 \<noteq> 2
                            then BadStatusCode (status_code resp)
                            else (case body resp of Inl e \<Rightarrow> e | Inr bs \<Rightarrow> EOF)),
                     res_buf = [], res_reader = r,
                     res_calls = calls @ [\<lparr>req_method = MethodGet, req_url = url r,
                                            req_range = Some (off, off - 1)\<rparr>]\<rparr>)"
    using nohit noeof
    by (simp add: ReadAt_def read_def Let_def len64_def copy_bytes_def
        split: option.splits sum.splits)
next
  show "Read h (r\<lparr>offset := off\<rparr>) calls [] =
            (case ReadAt h r calls [] off of
               Panicked \<Rightarrow> Panicked
             | Returned res \<Rightarrow> Returned (res\<lparr>res_reader := r\<lparr>offset := off\<rparr>\<rparr>))"
    by (rule Read_zero_length)
qed

text \<open>The amended C9 at the three kinds of offset.\<close>

theorem zero_length_read_witness:
  "ReadAt plain_http demo_reader [] [] 0 =
     Returned \<lparr>res_n = 0, res_err = Some EOF, res_buf = [], res_reader = demo_reader,
               res_calls = [\<lparr>req_method = MethodGet, req_url = ''u'',
                              req_range = Some (0, - 1)\<rparr>]\<rparr>
   \<and> ReadAt plain_http demo_reader [] [] 2 =
     Returned \<lparr>res_n = 0, res_err = Some EOF, res_buf = [], res_reader = demo_reader,
               res_calls = []\<rparr>
   \<and> ReadAt plain_http prefetched_reader [] [] 1 =
     Returned \<lparr>res_n = 0, res_err = None, res_buf = [], res_reader = prefetched_reader,
               res_calls = []\<rparr>
   \<and> ReadAt down_http demo_reader [] [] 0 =
     Returned \<lparr>res_n = 0, res_err = Some (LibError ''dial tcp: connection refused''),
               res_buf = [], res_reader = demo_reader,
               res_calls = [\<lparr>req_method = MethodGet, req_url = ''u'',
                              req_range = Some (0, - 1)\<rparr>]\<rparr>"
proof -
  have b: "length (head demo_reader) < 2 ^ 63" "length (head prefetched_reader) < 2 ^ 63"
    by (simp_all add: demo_reader_def prefetched_reader_def)
  have one: "ReadAt plain_http demo_reader [] [] 0 =
     Returned \<lparr>res_n = 0, res_err = Some EOF, res_buf = [], res_reader = demo_reader,
               res_calls = [\<lparr>req_method = MethodGet, req_url = ''u'',
                              req_range = Some (0, - 1)\<rparr>]\<rparr>"
    using zero_length_read [OF b(1), of 0 plain_http "[]"]
    by (simp add: demo_reader_def plain_http_def plain_do_def go_quot_def)
  have two: "ReadAt plain_http demo_reader [] [] 2 =
     Returned \<lparr>res_n = 0, res_err = Some EOF, res_buf = [], res_reader = demo_reader,
               res_calls = []\<rparr>"
    using zero_length_read [OF b(1), of 2 plain_http "[]"]
    by (simp add: demo_reader_def)
  have three: "ReadAt plain_http prefetched_reader [] [] 1 =
     Returned \<lparr>res_n = 0, res_err = None, res_buf = [], res_reader = prefetched_reader,
               res_calls = []\<rparr>"
    using zero_length_read [OF b(2), of 1 plain_http "[]"]
    by (simp add: prefetched_reader_def)
  have four: "ReadAt down_http demo_reader [] [] 0 =
     Returned \<lparr>res_n = 0, res_err = Some (LibError ''dial tcp: connection refused''),
               res_buf = [], res_reader = demo_reader,
               res_calls = [\<lparr>req_method = MethodGet, req_url = ''u'',
                              req_range = Some (0, - 1)\<rparr>]\<rparr>"
    using zero_length_read [OF b(1), of 0 down_http "[]"]
    by (simp add: demo_reader_def down_http_def)
  from one two three four show ?thesis by simp
qed

text \<open>
  Claim C9 as stated fails for a zero-length buffer at offset 0 of the two-byte
  resource with nothing prefetched: the GET is sent before anything is reported,
  and if the client cannot connect the error is the client's, not
  \<^verbatim>\<open>io.EOF\<close>. With bytes prefetched the same read reports no error at all.
\<close>

theorem zero_length_read_counterexample:
  "ReadAt plain_http demo_reader [] [] 0 =
     Returned \<lparr>res_n = 0, res_err = Some EOF, res_buf = [], res_reader = demo_reader,
               res_calls = [\<lparr>req_method = MethodGet, req_url = ''u'',
                              req_range = Some (0, - 1)\<rparr>]\<rparr>
   \<and> ReadAt down_http demo_reader [] [] 0 =
     Returned \<lparr>res_n = 0, res_err = Some (LibError ''dial tcp: connection refused''),
               res_buf = [], res_reader = demo_reader,
               res_calls = [\<lparr>req_method = MethodGet, req_url = ''u'',
                              req_range = Some (0, - 1)\<rparr>]\<rparr>
   \<and> ReadAt demo_http prefetched_reader [] [] 0 =
     Returned \<lparr>res_n = 0, res_err = None, res_buf = [], res_reader = prefetched_reader,
               res_calls = []\<rparr>"
  by code_simp

section \<open>Seeking before the start\<close>

text \<open>
  Claim C10, as amended. \<^verbatim>\<open>Seek\<close> with one of the three modes never fails and
  never clamps: the cursor becomes \<open>off\<close>, \<open>cursor + off\<close> or \<open>contentSize - off\<close>
  (the integer sum and difference whenever they fit \<^verbatim>\<open>int64\<close>), negative or past
  the end as it may be. A negative cursor is not rejected by the next \<^verbatim>\<open>Read\<close>:
  when the prefetch test does not fire (\<open>len(head) \<le> cursor + len(buf)\<close>) the read
  returns. It returns \<open>0\<close> and \<^verbatim>\<open>io.EOF\<close>, with no request, if
  \<open>cursor \<ge> contentSize\<close>; \<open>0\<close> and the error of \<^verbatim>\<open>http.NewRequest\<close>, with no
  request, if the URL is rejected; otherwise it sends the ranged GET for
  \<open>[cursor, cursor + len(buf) - 1]\<close> with the negative start, and returns \<open>0\<close> and
  the error of \<^verbatim>\<open>client.Do\<close> if it fails, \<open>0\<close> and "Bad status code" if the
  status is not 2xx, \<open>0\<close> and the error of reading the body if that fails, and
  else \<open>len(buf)\<close> with no error, the body copied into the buffer and the cursor
  moved by \<open>len(buf)\<close>. In every case with an error the buffer and the cursor are
  as before.
\<close>

theorem Seek_unclamped_then_Read:
  "Seek r calls off SeekStart = (off, None, r\<lparr>offset := off\<rparr>, calls)
   \<and> Seek r calls off SeekCurrent = (offset r + off, None, r\<lparr>offset := offset r + off\<rparr>, calls)
   \<and> Seek r calls off SeekEnd =
         (contentSize r - off, None, r\<lparr>offset := contentSize r - off\<rparr>, calls)
   \<and> (- (2 ^ 63) \<le> sint (offset r) + sint off \<and> sint (offset r) + sint off < 2 ^ 63 \<longrightarrow>
         sint (offset r + off) = sint (offset r) + sint off)
   \<and> (- (2 ^ 63) \<le> sint (contentSize r) - sint off \<and> sint (contentSize r) - sint off < 2 ^ 63 \<longrightarrow>
         sint (contentSize r - off) = sint (contentSize r) - sint off)
   \<and> (length (head r) < 2 ^ 63 \<and> length buf < 2 ^ 63 \<and> sint (offset r) < 0 \<and>
      int (length (head r)) \<le> sint (offset r) + int (length buf) \<longrightarrow>
        Read h r calls buf =
          (if sint (contentSize r) \<le> sint (offset r) then
             Returned \<lparr>res_n = 0, res_err = Some EOF, res_buf = buf, res_reader = r,
                       res_calls = calls\<rparr>
           else
             (case new_request_err h (url r) of
                Some e \<Rightarrow>
                  Returned \<lparr>res_n = 0, res_err = Some e, res_buf = buf, res_reader = r,
                            res_calls = calls\<rparr>
              | None \<Rightarrow>
                  (case client_do h calls
                          \<lparr>req_method = MethodGet, req_url = url r,
                             req_range = Some (offset r, offset r + len64 buf - 1)\<rparr> of
                     Inl e \<Rightarrow>
                       Returned \<lparr>res_n = 0, res_err = Some e, res_buf = buf, res_reader = r,
                         res_calls = calls @ [\<lparr>req_method = MethodGet, req_url = url r,
                           req_range = Some (offset r, offset r + len64 buf - 1)\<rparr>]\<rparr>
                   | Inr resp \<Rightarrow>
                       if go_quot (status_code resp) 100 \<noteq> 2 then
                         Returned \<lparr>res_n = 0, res_err = Some (BadStatusCode (status_code resp)),
                           res_buf = buf, res_reader = r,
                           res_calls = calls @ [\<lparr>req_method = MethodGet, req_url = url r,
                             req_range = Some (offset r, offset r + len64 buf - 1)\<rparr>]\<rparr>
                       else
                         (case body resp of
                            Inl e \<Rightarrow>
                              Returned \<lparr>res_n = 0, res_err = Some e, res_buf = buf,
                                res_reader = r,
                                res_calls = calls @ [\<lparr>req_method = MethodGet, req_url = url r,
                                  req_range = Some (offset r, offset r + len64 buf - 1)\<rparr>]\<rparr>
                          | Inr bs \<Rightarrow>
                              Returned \<lparr>res_n = int (length buf), res_err = None,
                                res_buf = copy_bytes buf bs,
                                res_reader = r\<lparr>offset := offset r + len64 buf\<rparr>,
                                res_calls = calls @ [\<lparr>req_method = MethodGet, req_url = url r,
                                  req_range = Some (offset r, offset r + len64 buf - 1)\<rparr>]\<rparr>)))))"
proof (intro conjI impI)
  show "Seek r calls off SeekStart = (off, None, r\<lparr>offset := off\<rparr>, calls)"
    by (simp add: Seek_def Let_def)
next
  show "Seek r calls off SeekCurrent =
          (offset r + off, None, r\<lparr>offset := offset r + off\<rparr>, calls)"
    by (simp add: Seek_def Let_def SeekStart_def SeekCurrent_def)
next
  show "Seek r calls off SeekEnd =
          (contentSize r - off, None, r\<lparr>offset := contentSize r - off\<rparr>, calls)"
    by (simp add: Seek_def Let_def SeekStart_def SeekCurrent_def SeekEnd_def)
next
  assume "- (2 ^ 63) \<le> sint (offset r) + sint off \<and> sint (offset r) + sint off < 2 ^ 63"
  then show "sint (offset r + off) = sint (offset r) + sint off"
    by (simp add: sint_add_in_range)
next
  assume "- (2 ^ 63) \<le> sint (contentSize r) - sint off \<and>
          sint (contentSize r) - sint off < 2 ^ 63"
  then show "sint (contentSize r - off) = sint (contentSize r) - sint off"
    by (simp add: sint_diff_in_range)
next
  assume a: "length (head r) < 2 ^ 63 \<and> length buf < 2 ^ 63 \<and> sint (offset r) < 0 \<and>
      int (length (head r)) \<le> sint (offset r) + int (length buf)"
  have nohit: "\<not> offset r + len64 buf <s len64 (head r)"
    using read_no_hit [of r "offset r" buf] a by simp
  have ne: "buf \<noteq> []"
    using a by auto
  show "Read h r calls buf =
          (if sint (contentSize r) \<le> sint (offset r) then
             Returned \<lparr>res_n = 0, res_err = Some EOF, res_buf = buf, res_reader = r,
                       res_calls = calls\<rparr>
           else
             (case new_request_err h (url r) of
                Some e \<Rightarrow>
                  Returned \<lparr>res_n = 0, res_err = Some e, res_buf = buf, res_reader = r,
                            res_calls = calls\<rparr>
              | None \<Rightarrow>
                  (case client_do h calls
                          \<lparr>req_method = MethodGet, req_url = url r,
                             req_range = Some (offset r, offset r + len64 buf - 1)\<rparr> of
                     Inl e \<Rightarrow>
                       Returned \<lparr>res_n = 0, res_err = Some e, res_buf = buf, res_reader = r,
                         res_calls = calls @ [\<lparr>req_method = MethodGet, req_url = url r,
                           req_range = Some (offset r, offset r + len64 buf - 1)\<rparr>]\<rparr>
                   | Inr resp \<Rightarrow>
                       if go_quot (status_code resp) 100 \<noteq> 2 then
                         Returned \<lparr>res_n = 0, res_err = Some (BadStatusCode (status_code resp)),
                           res_buf = buf, res_reader = r,
                           res_calls = calls @ [\<lparr>req_method = MethodGet, req_url = url r,
                             req_range = Some (offset r, offset r + len64 buf - 1)\<rparr>]\<rparr>
                       else
                         (case body resp of
                            Inl e \<Rightarrow>
                              Returned \<lparr>res_n = 0, res_err = Some e, res_buf = buf,
                                res_reader = r,
                                res_calls = calls @ [\<lparr>req_method = MethodGet, req_url = url r,
                                  req_range = Some (offset r, offset r + len64 buf - 1)\<rparr>]\<rparr>
                          | Inr bs \<Rightarrow>
                              Returned \<lparr>res_n = int (length buf), res_err = None,
                                res_buf = copy_bytes buf bs,
                                res_reader = r\<lparr>offset := offset r + len64 buf\<rparr>,
                                res_calls = calls @ [\<lparr>req_method = MethodGet, req_url = url r,
                                  req_range = Some (offset r, offset r + len64 buf - 1)\<rparr>]\<rparr>))))"
    using nohit ne
    by (simp add: Read_def read_def Let_def word_sle_eq len64_def
        split: option.splits sum.splits)
qed

text \<open>The amended C10 at cursor \<open>-1\<close>: against a server that ignores the range,
  and against a client that cannot connect.\<close>

theorem Seek_unclamped_then_Read_witness:
  "Seek demo_reader [] (- 1) SeekStart = (- 1, None, demo_reader\<lparr>offset := - 1\<rparr>, [])
   \<and> Read plain_http (demo_reader\<lparr>offset := - 1\<rparr>) [] [7] =
       Returned \<lparr>res_n = 1, res_err = None, res_buf = [0x41],
                 res_reader = demo_reader\<lparr>offset := 0\<rparr>,
                 res_calls = [\<lparr>req_method = MethodGet, req_url = ''u'',
                                req_range = Some (- 1, - 1)\<rparr>]\<rparr>
   \<and> Read down_http (demo_reader\<lparr>offset := - 1\<rparr>) [] [7] =
       Returned \<lparr>res_n = 0, res_err = Some (LibError ''dial tcp: connection refused''),
                 res_buf = [7], res_reader = demo_reader\<lparr>offset := - 1\<rparr>,
                 res_calls = [\<lparr>req_method = MethodGet, req_url = ''u'',
                                req_range = Some (- 1, - 1)\<rparr>]\<rparr>"
proof -
  let ?r = "demo_reader\<lparr>offset := - 1\<rparr>"
  have one: "Seek demo_reader [] (- 1) SeekStart = (- 1, None, ?r, [])"
    using Seek_unclamped_then_Read [of demo_reader "[]" "- 1" "[7]" plain_http] by blast
  have pre: "length (head ?r) < 2 ^ 63 \<and> length [7 :: byte] < 2 ^ 63 \<and>
      sint (offset ?r) < 0 \<and>
      int (length (head ?r)) \<le> sint (offset ?r) + int (length [7 :: byte])"
    by (simp add: demo_reader_def)
  have two: "Read plain_http ?r [] [7] =
       Returned \<lparr>res_n = 1, res_err = None, res_buf = [0x41],
                 res_reader = demo_reader\<lparr>offset := 0\<rparr>,
                 res_calls = [\<lparr>req_method = MethodGet, req_url = ''u'',
                                req_range = Some (- 1, - 1)\<rparr>]\<rparr>"
    using Seek_unclamped_then_Read [of ?r "[]" 0 "[7]" plain_http] pre
    by (simp add: len64_def demo_reader_def plain_http_def plain_do_def go_quot_def
        copy_bytes_def demo_content_def)
  have three: "Read down_http ?r [] [7] =
       Returned \<lparr>res_n = 0, res_err = Some (LibError ''dial tcp: connection refused''),
                 res_buf = [7], res_reader = ?r,
                 res_calls = [\<lparr>req_method = MethodGet, req_url = ''u'',
                                req_range = Some (- 1, - 1)\<rparr>]\<rparr>"
    using Seek_unclamped_then_Read [of ?r "[]" 0 "[7]" down_http] pre
    by (simp add: len64_def demo_reader_def down_http_def)
  from one two three show ?thesis by simp
qed

text \<open>
  Claim C10 as stated fails both ways. After \<^verbatim>\<open>Seek(-5, io.SeekStart)\<close> a
  \<^verbatim>\<open>Read\<close> into two bytes has \<open>len(head) = 0 > -5 + 2\<close> and panics in the slice
  expression. After \<^verbatim>\<open>Seek(-1, io.SeekStart)\<close> a \<^verbatim>\<open>Read\<close> into one byte asks for
  the range \<open>-1\<close> to \<open>-1\<close>, and succeeds against a server that answers 200.
\<close>

theorem negative_cursor_Read_counterexample:
  "Seek demo_reader [] (- 5) SeekStart = (- 5, None, demo_reader\<lparr>offset := - 5\<rparr>, [])
   \<and> sint (offset (demo_reader\<lparr>offset := - 5\<rparr>)) < 0
   \<and> Read demo_http (demo_reader\<lparr>offset := - 5\<rparr>) [] [7, 7] = Panicked
   \<and> sint (offset (demo_reader\<lparr>offset := - 1\<rparr>)) < 0
   \<and> Read plain_http (demo_reader\<lparr>offset := - 1\<rparr>) [] [7] =
       Returned \<lparr>res_n = 1, res_err = None, res_buf = [0x41],
                 res_reader = demo_reader\<lparr>offset := 0\<rparr>,
                 res_calls = [\<lparr>req_method = MethodGet, req_url = ''u'',
                                req_range = Some (- 1, - 1)\<rparr>]\<rparr>"
  by code_simp

end
